theory Spec2Isabelle
  imports Main
begin

section \<open>Data model\<close>

text \<open>
  The generator \<^verbatim>\<open>embed.c\<close> reads a list of input files and writes a C source file
  holding three tables (names, data, sizes) and a lookup function, and a header with the
  function's declaration.

  Conventions of the embedding.
  \<^item> A C \<^verbatim>\<open>char\<close> is a \<^typ>\<open>char\<close> (one byte). A C string (an element of
    \<^verbatim>\<open>argv\<close>, a path, a function name) is the \<^typ>\<open>string\<close> of its characters before
    the terminating NUL; the test \<^verbatim>\<open>c == '\0'\<close> of a loop over a C string is the test for
    the end of the list.
  \<^item> A pointer that the code tests against \<^verbatim>\<open>NULL\<close> is an \<^typ>\<open>'a option\<close>, with
    \<^const>\<open>None\<close> the null pointer.
  \<^item> An array literal \<^verbatim>\<open>(char[]){...}\<close> written to the output is recorded as the list of
    the values handed to \<^verbatim>\<open>output_hex\<close> between its braces, in order. The layout text
    around them (the comment naming the file, the commas, a line break every
    \<^verbatim>\<open>HEX_COLS\<close> values) carries no table content and is not recorded.
  \<^item> The file system is a map from a path to the bytes of the regular file there;
    \<^verbatim>\<open>fopen(path, "r")\<close> fails exactly where the map is undefined, and a read of an
    open file never fails. A file length fits \<^verbatim>\<open>long\<close> and \<^verbatim>\<open>size_t\<close>, so both are
    \<^typ>\<open>nat\<close>.
  \<^item> Undefined behaviour of C (a null pointer dereferenced or handed to stdio, a read past
    the end of an array) is an error value of the model, never an unspecified HOL value.
\<close>

type_synonym file_system = "string \<Rightarrow> char list option"

definition NUL :: char where
  "NUL = CHR 0x00"

text \<open>\<^verbatim>\<open>#define PATH_SEPARATOR '/'\<close>: the branch taken when \<^verbatim>\<open>_WIN32\<close> is not defined.\<close>

definition PATH_SEPARATOR :: char where
  "PATH_SEPARATOR = CHR ''/''"

text \<open>The values of \<^verbatim>\<open>stdlib.h\<close>.\<close>

definition EXIT_SUCCESS :: int where
  "EXIT_SUCCESS = 0"

definition EXIT_FAILURE :: int where
  "EXIT_FAILURE = 1"

text \<open>
  An element of a generated \<^verbatim>\<open>const char*\<close> table: the null pointer, or a pointer to a
  \<^verbatim>\<open>char\<close> array with the given contents. A compound literal \<^verbatim>\<open>(char[]){...}\<close> is an
  array object, so the table element it initialises is never the null pointer.
\<close>

datatype c_ptr = Null | Ptr "char list"

text \<open>
  How an emitter stops early: \<^verbatim>\<open>Could_not_open\<close> is the diagnostic followed by
  \<^verbatim>\<open>exit(1)\<close>; the other two are undefined behaviour.
\<close>

datatype error =
    Could_not_open string
  | Null_pointer
  | Out_of_bounds

section \<open>Display names\<close>

text \<open>
  \<^verbatim>\<open>plain_name\<close>: \<^verbatim>\<open>no_path\<close> starts at the file name and is moved to
  \<^verbatim>\<open>&filename[i + 1]\<close> at every separator. A pointer into the string is the suffix that
  starts there; the first argument is \<^verbatim>\<open>no_path\<close>, the second the suffix at index
  \<^verbatim>\<open>i\<close>.
\<close>

fun plain_name_scan :: "string \<Rightarrow> string \<Rightarrow> string" where
  "plain_name_scan no_path [] = no_path"
| "plain_name_scan no_path (c # rest) =
     (if c = PATH_SEPARATOR then plain_name_scan rest rest
      else plain_name_scan no_path rest)"

definition plain_name :: "string \<Rightarrow> string" where
  "plain_name filename = plain_name_scan filename filename"

section \<open>The names table\<close>

text \<open>
  The inner loop of \<^verbatim>\<open>generate_file_list\<close>: every character of the display name goes
  through \<^verbatim>\<open>output_hex\<close>, the terminating NUL included, after which the loop breaks.
\<close>

fun name_literal :: "string \<Rightarrow> char list" where
  "name_literal [] = [NUL]"
| "name_literal (c # rest) = c # name_literal rest"

text \<open>The outer loop: one array literal per element of \<^verbatim>\<open>files\<close>, up to its null element.\<close>

fun file_list_entries :: "bool \<Rightarrow> string list \<Rightarrow> c_ptr list" where
  "file_list_entries preserve_paths [] = []"
| "file_list_entries preserve_paths (input_file # files) =
     Ptr (name_literal (if \<not> preserve_paths then plain_name input_file else input_file))
       # file_list_entries preserve_paths files"

text \<open>
  \<^verbatim>\<open>generate_file_list\<close>. The loop condition \<^verbatim>\<open>*files\<close> dereferences \<^verbatim>\<open>files\<close> before
  anything else is done with it. After the loop the literal \<^verbatim>\<open>(char[]){0}\<close> is written:
  a pointer to an array holding one zero byte. The result is the list of table elements
  written and the reason the emitter stopped early, if it did.
\<close>

definition generate_file_list :: "string list option \<Rightarrow> bool \<Rightarrow> c_ptr list \<times> error option" where
  "generate_file_list files preserve_paths =
     (case files of
        None \<Rightarrow> ([], Some Null_pointer)
      | Some fl \<Rightarrow> (file_list_entries preserve_paths fl @ [Ptr [NUL]], None))"

section \<open>The data table\<close>

text \<open>
  The read loop of \<^verbatim>\<open>generate_file_data\<close>: \<^verbatim>\<open>getc\<close> until \<^verbatim>\<open>feof\<close>, each byte read
  handed to \<^verbatim>\<open>output_hex\<close>. The argument is what is left of the stream.
\<close>

fun read_bytes :: "char list \<Rightarrow> char list" where
  "read_bytes [] = []"
| "read_bytes (c # rest) = c # read_bytes rest"

text \<open>
  The loop over \<^verbatim>\<open>files\<close>: the file is opened and the handle tested at once; a failed open
  ends the run with the diagnostic. After the read loop \<^verbatim>\<open>output_hex(fd, 0)\<close> appends
  the terminator.
\<close>

fun file_data_entries :: "file_system \<Rightarrow> string list \<Rightarrow> c_ptr list \<times> error option" where
  "file_data_entries fs [] = ([], None)"
| "file_data_entries fs (input_file # files) =
     (case fs input_file of
        None \<Rightarrow> ([], Some (Could_not_open input_file))
      | Some content \<Rightarrow>
          (case file_data_entries fs files of
             (entries, stop) \<Rightarrow> (Ptr (read_bytes content @ [NUL]) # entries, stop)))"

definition generate_file_data :: "file_system \<Rightarrow> string list option \<Rightarrow> c_ptr list \<times> error option" where
  "generate_file_data fs files =
     (case files of
        None \<Rightarrow> ([], Some Null_pointer)
      | Some fl \<Rightarrow> file_data_entries fs fl)"

section \<open>The sizes table\<close>

text \<open>
  The loop of \<^verbatim>\<open>generate_file_data_sizes\<close>. The statements run in this order:
  \<^verbatim>\<open>infd = fopen(...)\<close>, \<^verbatim>\<open>fseek(infd, 0, SEEK_END)\<close>, \<^verbatim>\<open>length = ftell(infd)\<close>, and only
  then \<^verbatim>\<open>if (!infd)\<close>. So a failed open hands a null handle to \<^verbatim>\<open>fseek\<close>, which is
  undefined; the diagnostic behind the test is never reached by a defined execution.
  For an open file, seeking to the end and asking for the position gives its length.
\<close>

fun file_size_entries :: "file_system \<Rightarrow> string list \<Rightarrow> nat list \<times> error option" where
  "file_size_entries fs [] = ([], None)"
| "file_size_entries fs (input_file # files) =
     (case fs input_file of
        None \<Rightarrow> ([], Some Null_pointer)
      | Some content \<Rightarrow>
          (case file_size_entries fs files of
             (entries, stop) \<Rightarrow> (length content # entries, stop)))"

definition generate_file_data_sizes :: "file_system \<Rightarrow> string list option \<Rightarrow> nat list \<times> error option" where
  "generate_file_data_sizes fs files =
     (case files of
        None \<Rightarrow> ([], Some Null_pointer)
      | Some fl \<Rightarrow> file_size_entries fs fl)"

section \<open>The include guard\<close>

text \<open>
  One step of \<^verbatim>\<open>generate_define_name\<close>. The comparisons are on character codes;
  \<^verbatim>\<open>'A'\<close> is 65, \<^verbatim>\<open>'Z'\<close> 90, \<^verbatim>\<open>'a'\<close> 97, \<^verbatim>\<open>'z'\<close> 122 and \<^verbatim>\<open>'a' - 'A'\<close> is 32.
  A byte above 127 is outside both ranges whether \<^verbatim>\<open>char\<close> is signed or not.
\<close>

definition define_char :: "char \<Rightarrow> char" where
  "define_char c =
     (if (65::nat) \<le> of_char c \<and> of_char c \<le> (90::nat) then c
      else if (97::nat) \<le> of_char c \<and> of_char c \<le> (122::nat)
        then char_of (of_char c - (32::nat))
      else CHR ''_'')"

fun generate_define_name :: "string \<Rightarrow> string" where
  "generate_define_name [] = []"
| "generate_define_name (c # rest) = define_char c # generate_define_name rest"

section \<open>The generated lookup function\<close>

text \<open>
  \<^verbatim>\<open>generate_function\<close> writes this function, under the configured name:
  \<^verbatim>\<open>
  const char* f(const char* filename, size_t* length) {
    for (int i = 0; EMBEDDED_FILE_NAMES[i] != 0; i++) {
       if (0 == strcmp(filename, EMBEDDED_FILE_NAMES[i])) {
         if (length) {
           *length = EMBEDDED_FILE_DATA_SIZES[i];
         }
         return EMBEDDED_FILE_DATA[i];
       }
    }
    return NULL;
  }
  \<close>
  The three tables are the arrays the emitters wrote, so each has exactly the elements
  written and a read at an index past its last element is undefined.
\<close>

record generated_source =
  names_table :: "c_ptr list"
  data_table :: "c_ptr list"
  sizes_table :: "nat list"
  function_name_of :: string

text \<open>
  \<^verbatim>\<open>0 == strcmp(filename, entry)\<close>: the characters of the array up to its first NUL
  are those of \<^verbatim>\<open>filename\<close>.
\<close>

definition strcmp_eq :: "string \<Rightarrow> char list \<Rightarrow> bool" where
  "strcmp_eq filename entry = (filename = takeWhile (\<lambda>c. c \<noteq> NUL) entry)"

text \<open>
  The scan from index \<^verbatim>\<open>i\<close>. The \<^verbatim>\<open>length\<close> argument is \<^const>\<open>None\<close> for a null
  pointer and \<^term>\<open>Some v\<close> for a pointer to a \<^verbatim>\<open>size_t\<close> that holds \<^term>\<open>v\<close>; the
  result is the pointer returned and the slot as the call leaves it.
\<close>

function lookup_scan ::
  "generated_source \<Rightarrow> string \<Rightarrow> nat option \<Rightarrow> nat \<Rightarrow> error + (c_ptr \<times> nat option)" where
  "lookup_scan g filename length_slot i =
     (if \<not> i < length (names_table g) then Inl Out_of_bounds
      else (case names_table g ! i of
              Null \<Rightarrow> Inr (Null, length_slot)
            | Ptr entry \<Rightarrow>
                if strcmp_eq filename entry then
                  (if length_slot \<noteq> None \<and> \<not> i < length (sizes_table g) then Inl Out_of_bounds
                   else if \<not> i < length (data_table g) then Inl Out_of_bounds
                   else Inr (data_table g ! i,
                             if length_slot \<noteq> None then Some (sizes_table g ! i) else None))
                else lookup_scan g filename length_slot (i + 1)))"
  by pat_completeness auto
termination
  by (relation "measure (\<lambda>(g, filename, length_slot, i). length (names_table g) - i)") auto

definition embedded_lookup ::
  "generated_source \<Rightarrow> string \<Rightarrow> nat option \<Rightarrow> error + (c_ptr \<times> nat option)" where
  "embedded_lookup g filename length_slot = lookup_scan g filename length_slot 0"

section \<open>The command line\<close>

record config =
  function_name :: "string option"
  source_file :: "string option"
  header_file :: "string option"
  input_files :: "string list option"
  preserve_paths :: bool

text \<open>The declarations at the head of \<^verbatim>\<open>main\<close>.\<close>

definition config0 :: config where
  "config0 = \<lparr>function_name = None, source_file = None, header_file = None,
     input_files = None, preserve_paths = False\<rparr>"

text \<open>What the run writes to \<^verbatim>\<open>stderr\<close>; \<^verbatim>\<open>Usage\<close> is the text of \<^verbatim>\<open>print_help\<close>.\<close>

datatype diagnostic =
    Usage
  | Options_before_files
  | Unrecognized_option string
  | Need_source
  | No_header_notice
  | Need_function
  | Cannot_open_source string
  | Cannot_open_header string
  | Cannot_open_file string

text \<open>\<^verbatim>\<open>argv[arg][0] == '-' && argv[arg][1] == '-'\<close>\<close>

definition is_option :: "string \<Rightarrow> bool" where
  "is_option a = (case a of c0 # c1 # _ \<Rightarrow> c0 = CHR ''-'' \<and> c1 = CHR ''-'' | _ \<Rightarrow> False)"

text \<open>
  The argument loop of \<^verbatim>\<open>main\<close>, from \<^verbatim>\<open>argv[arg]\<close> on. An option that takes a value
  reads \<^verbatim>\<open>argv[arg + 1]\<close> (null when the option is the last argument) and steps over
  it. The first argument that is not an option becomes the start of the input files
  and the loop breaks, so the test \<^verbatim>\<open>if (input_files)\<close> in the option branch is kept
  as the code has it, although no iteration follows the one that sets the pointer. The
  result is the diagnostics of an early \<^verbatim>\<open>return EXIT_FAILURE\<close>, or the configuration.
\<close>

fun search_args :: "config \<Rightarrow> string list \<Rightarrow> diagnostic list + config" where
  "search_args cfg [] = Inr cfg"
| "search_args cfg (a # rest) =
     (if is_option a then
        (if input_files cfg \<noteq> None then Inl [Options_before_files, Usage]
         else
           (let arg_name = drop 2 a;
                arg_value = (case rest of [] \<Rightarrow> None | v # _ \<Rightarrow> Some v)
            in
              if arg_name = ''source'' then
                (case rest of
                   [] \<Rightarrow> Inr (cfg\<lparr>source_file := arg_value\<rparr>)
                 | _ # rest' \<Rightarrow> search_args (cfg\<lparr>source_file := arg_value\<rparr>) rest')
              else if arg_name = ''header'' then
                (case rest of
                   [] \<Rightarrow> Inr (cfg\<lparr>header_file := arg_value\<rparr>)
                 | _ # rest' \<Rightarrow> search_args (cfg\<lparr>header_file := arg_value\<rparr>) rest')
              else if arg_name = ''function'' then
                (case rest of
                   [] \<Rightarrow> Inr (cfg\<lparr>function_name := arg_value\<rparr>)
                 | _ # rest' \<Rightarrow> search_args (cfg\<lparr>function_name := arg_value\<rparr>) rest')
              else if arg_name = ''help'' then Inl [Usage]
              else if arg_name = ''preserve-paths'' then
                search_args (cfg\<lparr>preserve_paths := True\<rparr>) rest
              else Inl [Unrecognized_option arg_name, Usage]))
      else
        Inr (if input_files cfg = None then cfg\<lparr>input_files := Some (a # rest)\<rparr> else cfg))"

section \<open>The run\<close>

text \<open>
  The environment of a run: the input file system, and the paths at which
  \<^verbatim>\<open>fopen(path, "w")\<close> succeeds.
\<close>

record env =
  files_of :: file_system
  writable :: "string \<Rightarrow> bool"

datatype outcome = Exit int | Undefined

record generated_header =
  guard :: string
  declared :: string

text \<open>
  What a run leaves: how it ended, what it printed to \<^verbatim>\<open>stderr\<close>, the paths it opened
  for writing (each created or truncated by that), and the source and header files it
  completed and closed.
\<close>

record run =
  status :: outcome
  diagnostics :: "diagnostic list"
  opened :: "string list"
  source_out :: "generated_source option"
  header_out :: "generated_header option"

text \<open>The end of a run whose emitter stopped early.\<close>

fun stopped :: "error \<Rightarrow> string list \<Rightarrow> run" where
  "stopped (Could_not_open input_file) paths =
     \<lparr>status = Exit 1, diagnostics = [Cannot_open_file input_file], opened = paths,
      source_out = None, header_out = None\<rparr>"
| "stopped e paths =
     \<lparr>status = Undefined, diagnostics = [], opened = paths,
      source_out = None, header_out = None\<rparr>"

text \<open>
  The part of \<^verbatim>\<open>main\<close> after both output files are open: the three emitters in order,
  then the function, then the header.
\<close>

definition emit :: "env \<Rightarrow> config \<Rightarrow> string \<Rightarrow> string \<Rightarrow> string \<Rightarrow> run" where
  "emit e cfg fn src hdr =
     (case generate_file_list (input_files cfg) (preserve_paths cfg) of
        (names, Some err) \<Rightarrow> stopped err [src, hdr]
      | (names, None) \<Rightarrow>
     (case generate_file_data (files_of e) (input_files cfg) of
        (data, Some err) \<Rightarrow> stopped err [src, hdr]
      | (data, None) \<Rightarrow>
     (case generate_file_data_sizes (files_of e) (input_files cfg) of
        (sizes, Some err) \<Rightarrow> stopped err [src, hdr]
      | (sizes, None) \<Rightarrow>
          \<lparr>status = Exit EXIT_SUCCESS, diagnostics = [], opened = [src, hdr],
           source_out = Some \<lparr>names_table = names, data_table = data,
             sizes_table = sizes, function_name_of = fn\<rparr>,
           header_out = Some \<lparr>guard = ''_'' @ generate_define_name hdr @ ''_'',
             declared = fn\<rparr>\<rparr>)))"

text \<open>
  \<^verbatim>\<open>main\<close>, on the arguments after \<^verbatim>\<open>argv[0]\<close>. The header path is handed to
  \<^verbatim>\<open>fopen\<close> whether or not it is null; a null path there is undefined.
\<close>

definition main :: "env \<Rightarrow> string list \<Rightarrow> run" where
  "main e args =
     (case search_args config0 args of
        Inl ds \<Rightarrow>
          \<lparr>status = Exit EXIT_FAILURE, diagnostics = ds, opened = [],
           source_out = None, header_out = None\<rparr>
      | Inr cfg \<Rightarrow>
     (case source_file cfg of
        None \<Rightarrow>
          \<lparr>status = Exit EXIT_FAILURE, diagnostics = [Need_source, Usage], opened = [],
           source_out = None, header_out = None\<rparr>
      | Some src \<Rightarrow>
     (let notice = (if header_file cfg = None then [No_header_notice] else []) in
     (case function_name cfg of
        None \<Rightarrow>
          \<lparr>status = Exit EXIT_FAILURE, diagnostics = notice @ [Need_function, Usage],
           opened = [], source_out = None, header_out = None\<rparr>
      | Some fn \<Rightarrow>
          if \<not> writable e src then
            \<lparr>status = Exit EXIT_FAILURE, diagnostics = notice @ [Cannot_open_source src],
             opened = [], source_out = None, header_out = None\<rparr>
          else
     (case header_file cfg of
        None \<Rightarrow>
          \<lparr>status = Undefined, diagnostics = notice, opened = [src],
           source_out = None, header_out = None\<rparr>
      | Some hdr \<Rightarrow>
          if \<not> writable e hdr then
            \<lparr>status = Exit EXIT_FAILURE, diagnostics = notice @ [Cannot_open_header hdr],
             opened = [src], source_out = None, header_out = None\<rparr>
          else emit e cfg fn src hdr)))))"

section \<open>Definitions that follow the specification's words\<close>

text \<open>
  The specification's display name when paths are not preserved: the path with every
  character up to and including its last separator stripped, that is, its longest
  suffix free of separators.
\<close>

definition strip_through_last_separator :: "string \<Rightarrow> string" where
  "strip_through_last_separator p = rev (takeWhile (\<lambda>c. c \<noteq> PATH_SEPARATOR) (rev p))"

text \<open>
  The specification's include-guard character (with digits as the code treats them): a
  lowercase ASCII letter becomes the uppercase letter at the same place of the alphabet,
  an uppercase letter stays, anything else becomes an underscore.
\<close>

definition ascii_upper :: string where
  "ascii_upper = ''ABCDEFGHIJKLMNOPQRSTUVWXYZ''"

definition ascii_lower :: string where
  "ascii_lower = ''abcdefghijklmnopqrstuvwxyz''"

definition guard_char :: "char \<Rightarrow> char" where
  "guard_char c =
     (case map_of (zip ascii_lower ascii_upper) c of
        Some u \<Rightarrow> u
      | None \<Rightarrow> if c \<in> set ascii_upper then c else CHR ''_'')"

section \<open>A concrete run\<close>

text \<open>
  The scenario of the specification: \<^verbatim>\<open>a.txt\<close> holds \<^verbatim>\<open>hi\<close>, \<^verbatim>\<open>sub/b.txt\<close> holds
  \<^verbatim>\<open>!\<close>, every output path can be opened, and paths are not preserved.
\<close>

abbreviation scenario_env :: env where
  "scenario_env \<equiv> \<lparr>files_of = [''a.txt'' \<mapsto> ''hi'', ''sub/b.txt'' \<mapsto> ''!''],
     writable = (\<lambda>path. True)\<rparr>"

abbreviation scenario_args :: "string list" where
  "scenario_args \<equiv> [''--function'', ''get'', ''--source'', ''out.c'', ''--header'', ''out.h'',
     ''a.txt'', ''sub/b.txt'']"

abbreviation scenario_source :: generated_source where
  "scenario_source \<equiv>
     \<lparr>names_table = [Ptr (''a.txt'' @ [NUL]), Ptr (''b.txt'' @ [NUL]), Ptr [NUL]],
      data_table = [Ptr (''hi'' @ [NUL]), Ptr (''!'' @ [NUL])],
      sizes_table = [2, 1], function_name_of = ''get''\<rparr>"

text \<open>
  The recursive equations of the two loops that are not structural on one argument are
  applied by hand.
\<close>

declare search_args.simps [simp del]

declare lookup_scan.simps [simp del]

section \<open>Properties of the display names and the names table\<close>

lemma strip_Cons:
  "strip_through_last_separator (c # rest) =
     (if PATH_SEPARATOR \<in> set rest then strip_through_last_separator rest
      else if c = PATH_SEPARATOR then rest else c # rest)"
  by (auto simp: strip_through_last_separator_def takeWhile_append)




text \<open>
  The stripped name is what follows the last separator: the path is a prefix, empty or
  ending in a separator, followed by the name, and the name holds no separator.
\<close>

lemma strip_through_last_separator_splits:
  "\<exists>prefix. p = prefix @ strip_through_last_separator p
     \<and> (prefix = [] \<or> last prefix = PATH_SEPARATOR)
     \<and> PATH_SEPARATOR \<notin> set (strip_through_last_separator p)"
proof (induction p)
  case Nil
  show ?case by (simp add: strip_through_last_separator_def)
next
  case (Cons c rest)
  then obtain prefix where
    p: "rest = prefix @ strip_through_last_separator rest"
    and l: "prefix = [] \<or> last prefix = PATH_SEPARATOR"
    and n: "PATH_SEPARATOR \<notin> set (strip_through_last_separator rest)"
    by blast
  show ?case
  proof (cases "PATH_SEPARATOR \<in> set rest")
    case True
    with p n have "prefix \<noteq> []" by auto
    with p l n True show ?thesis
      by (intro exI [of _ "c # prefix"]) (simp add: strip_Cons)
  next
    case False
    show ?thesis
    proof (cases "c = PATH_SEPARATOR")
      case True
      with False show ?thesis
        by (intro exI [of _ "[c]"]) (simp add: strip_Cons)
    next
      case c: False
      with False show ?thesis
        by (intro exI [of _ "[]"]) (simp add: strip_Cons)
    qed
  qed
qed





section \<open>Properties of the include guard\<close>

lemma define_char_guard_char_all: "\<forall>c. define_char c = guard_char c"
  by code_simp

lemma guard_char_range_all:
  "\<forall>c. guard_char c \<in> set ascii_upper \<or> guard_char c = CHR ''_''"
  by code_simp

lemma generate_define_name_map: "generate_define_name s = map guard_char s"
  by (induction s) (simp_all add: define_char_guard_char_all)

text \<open>
  Claim C4, as the code has it. The include-guard token has one character per character
  of the header file name: a lowercase ASCII letter is uppercased, an uppercase letter is
  kept, and every other character, a digit included, becomes an underscore. So the token
  holds uppercase ASCII letters and underscores only.
\<close>

theorem generate_define_name_letters_and_underscores:
  "generate_define_name s = map guard_char s
   \<and> set (generate_define_name s) \<subseteq> set ascii_upper \<union> {CHR ''_''}"
  using guard_char_range_all by (auto simp: generate_define_name_map)

theorem generate_define_name_letters_and_underscores_witness:
  "generate_define_name ''My_files2.h'' = ''MY_FILES__H''
   \<and> set ''MY_FILES__H'' \<subseteq> set ascii_upper \<union> {CHR ''_''}"
proof -
  have m: "map guard_char ''My_files2.h'' = ''MY_FILES__H''"
    by code_simp
  have "generate_define_name ''My_files2.h'' = map guard_char ''My_files2.h''"
    and "set (generate_define_name ''My_files2.h'') \<subseteq> set ascii_upper \<union> {CHR ''_''}"
    using generate_define_name_letters_and_underscores [of "''My_files2.h''"] by blast+
  then show ?thesis
    by (simp only: m)
qed

text \<open>
  The claim as written fails on a digit: it is not kept, it becomes an underscore.
\<close>

theorem generate_define_name_digit_counterexample:
  "generate_define_name ''v2.h'' = ''V__H'' \<and> CHR ''2'' \<notin> set (generate_define_name ''v2.h'')"
  by code_simp

section \<open>Properties of the data and sizes tables\<close>









text \<open>
  The sizes pass never ends with the diagnostic: where the data pass reports a file it
  could not open, the sizes pass has already used the null handle.
\<close>

lemma file_size_entries_never_diagnoses:
  "snd (file_size_entries fs files) \<noteq> Some (Could_not_open p)"
  by (induction files) (auto split: option.splits prod.splits)

lemma file_size_entries_failed_open:
  "fs input_file = None \<Longrightarrow>
     file_size_entries fs (input_file # files) = ([], Some Null_pointer)"
  by simp

text \<open>
  Claim C5. The claim does not hold of the code. With \<^verbatim>\<open>a.txt\<close> present and
  \<^verbatim>\<open>gone.txt\<close> not to be opened, the sizes pass writes the first size and then hands
  the null handle to \<^verbatim>\<open>fseek\<close>: it stops in undefined behaviour, with no diagnostic. The
  data pass on the same input stops with the diagnostic that names the file.
\<close>

theorem sizes_pass_uses_null_handle:
  "generate_file_data_sizes [''a.txt'' \<mapsto> ''hi''] (Some [''a.txt'', ''gone.txt'']) =
     ([2], Some Null_pointer)
   \<and> generate_file_data [''a.txt'' \<mapsto> ''hi''] (Some [''a.txt'', ''gone.txt'']) =
     ([Ptr (''hi'' @ [NUL])], Some (Could_not_open ''gone.txt''))"
  by (simp add: generate_file_data_sizes_def generate_file_data_def)

section \<open>Properties of the generated lookup function\<close>

lemma lookup_scan_past_end:
  "\<not> i < length (names_table g) \<Longrightarrow> lookup_scan g filename slot i = Inl Out_of_bounds"
  by (subst lookup_scan.simps) simp

lemma lookup_scan_skip:
  "i < length (names_table g) \<Longrightarrow> names_table g ! i = Ptr entry \<Longrightarrow>
   \<not> strcmp_eq filename entry \<Longrightarrow>
   lookup_scan g filename slot i = lookup_scan g filename slot (i + 1)"
  by (subst lookup_scan.simps) simp

lemma lookup_scan_match:
  "i < length (names_table g) \<Longrightarrow> names_table g ! i = Ptr entry \<Longrightarrow>
   strcmp_eq filename entry \<Longrightarrow>
   lookup_scan g filename slot i =
     (if slot \<noteq> None \<and> \<not> i < length (sizes_table g) then Inl Out_of_bounds
      else if \<not> i < length (data_table g) then Inl Out_of_bounds
      else Inr (data_table g ! i, if slot \<noteq> None then Some (sizes_table g ! i) else None))"
  by (subst lookup_scan.simps) simp

lemma strcmp_eq_name: "NUL \<notin> set n \<Longrightarrow> strcmp_eq filename (n @ [NUL]) = (filename = n)"
  by (simp add: strcmp_eq_def takeWhile_append)

lemma strcmp_eq_sentinel: "strcmp_eq filename [NUL] = (filename = [])"
  by (simp add: strcmp_eq_def)

text \<open>The scan steps over every entry before the first one that matches.\<close>

lemma lookup_scan_skips_to:
  assumes t: "names_table g = map (\<lambda>n. Ptr (n @ [NUL])) names @ [Ptr [NUL]]"
    and z: "\<forall>n\<in>set names. NUL \<notin> set n"
    and k: "k \<le> length names"
    and m: "\<forall>j<k. names ! j \<noteq> filename"
    and i: "i \<le> k"
  shows "lookup_scan g filename slot i = lookup_scan g filename slot k"
  using i
proof (induction i rule: inc_induct)
  case base
  show ?case by simp
next
  case (step i)
  from step.hyps k have il: "i < length names" by simp
  then have e: "names_table g ! i = Ptr (names ! i @ [NUL])"
    by (simp add: t nth_append)
  from il z have "NUL \<notin> set (names ! i)" by simp
  moreover from step.hyps m have "names ! i \<noteq> filename" by simp
  ultimately have "\<not> strcmp_eq filename (names ! i @ [NUL])"
    by (auto simp: strcmp_eq_name)
  with il e have "lookup_scan g filename slot i = lookup_scan g filename slot (i + 1)"
    by (intro lookup_scan_skip) (simp_all add: t)
  with step.IH show ?case by simp
qed

text \<open>
  The half of the lookup that works. On tables as the emitters write them, a name that
  is in the names table gets the data entry at its first index, and the size at that
  index when a length slot was given.
\<close>

lemma lookup_present:
  assumes t: "names_table g = map (\<lambda>n. Ptr (n @ [NUL])) names @ [Ptr [NUL]]"
    and z: "\<forall>n\<in>set names. NUL \<notin> set n"
    and ld: "length (data_table g) = length names"
    and ls: "length (sizes_table g) = length names"
    and k: "k < length names" and hit: "names ! k = filename"
    and m: "\<forall>j<k. names ! j \<noteq> filename"
  shows "embedded_lookup g filename slot =
           Inr (data_table g ! k, if slot \<noteq> None then Some (sizes_table g ! k) else None)"
proof -
  from k have k': "k \<le> length names" by simp
  have "embedded_lookup g filename slot = lookup_scan g filename slot k"
    unfolding embedded_lookup_def
    by (rule lookup_scan_skips_to [OF t z k' m]) simp
  moreover from k have e: "names_table g ! k = Ptr (names ! k @ [NUL])"
    by (simp add: t nth_append)
  moreover have "strcmp_eq filename (names ! k @ [NUL])"
  proof -
    from k z have "NUL \<notin> set (names ! k)" by simp
    with hit show ?thesis by (simp add: strcmp_eq_name)
  qed
  moreover from k have "k < length (names_table g)" by (simp add: t)
  ultimately show ?thesis
    using k ld ls by (simp add: lookup_scan_match)
qed

text \<open>
  The half that does not. The entry after the last name is a pointer to a zero byte, not
  a null pointer, so the test \<^verbatim>\<open>EMBEDDED_FILE_NAMES[i] != 0\<close> does not stop the scan
  there. A name that is not in the table is compared with that entry as well: the empty
  name matches it and the data table is read at an index it does not have; any other
  name moves the scan on to an index the names table does not have.
\<close>

lemma lookup_absent:
  assumes t: "names_table g = map (\<lambda>n. Ptr (n @ [NUL])) names @ [Ptr [NUL]]"
    and z: "\<forall>n\<in>set names. NUL \<notin> set n"
    and ld: "length (data_table g) = length names"
    and absent: "filename \<notin> set names"
  shows "embedded_lookup g filename slot = Inl Out_of_bounds"
proof -
  let ?n = "length names"
  from absent have m: "\<forall>j<?n. names ! j \<noteq> filename" by auto
  have s: "embedded_lookup g filename slot = lookup_scan g filename slot ?n"
    unfolding embedded_lookup_def
    by (rule lookup_scan_skips_to [OF t z le_refl m]) simp
  have e: "names_table g ! ?n = Ptr [NUL]" by (simp add: t nth_append)
  have l: "?n < length (names_table g)" by (simp add: t)
  show ?thesis
  proof (cases "filename = []")
    case True
    then have "strcmp_eq filename [NUL]" by (simp add: strcmp_eq_sentinel)
    from lookup_scan_match [OF l e this] ld s show ?thesis by simp
  next
    case False
    then have "\<not> strcmp_eq filename [NUL]" by (simp add: strcmp_eq_sentinel)
    from lookup_scan_skip [OF l e this]
    have "lookup_scan g filename slot ?n = lookup_scan g filename slot (?n + 1)" .
    also have "\<dots> = Inl Out_of_bounds"
      by (rule lookup_scan_past_end) (simp add: t)
    finally show ?thesis using s by simp
  qed
qed

text \<open>No table the emitters write holds a null pointer, so the function never returns one.\<close>

lemma lookup_scan_never_null:
  "Null \<notin> set (names_table g) \<Longrightarrow> Null \<notin> set (data_table g) \<Longrightarrow>
     lookup_scan g filename slot i \<noteq> Inr (Null, s)"
proof (induction g filename slot i rule: lookup_scan.induct)
  case (1 g filename slot i)
  show ?case
  proof (cases "i < length (names_table g)")
    case False
    then show ?thesis by (simp add: lookup_scan_past_end)
  next
    case True
    with "1.prems"(1) obtain entry where e: "names_table g ! i = Ptr entry"
      by (cases "names_table g ! i") (auto simp: in_set_conv_nth)
    show ?thesis
    proof (cases "strcmp_eq filename entry")
      case False
      from "1.IH" [OF _ e False] True "1.prems" lookup_scan_skip [OF True e False]
      show ?thesis by simp
    next
      case m: True
      from "1.prems"(2) have "i < length (data_table g) \<Longrightarrow> data_table g ! i \<noteq> Null"
        by (auto simp: in_set_conv_nth)
      with lookup_scan_match [OF True e m] show ?thesis
        by (auto split: if_splits)
    qed
  qed
qed


text \<open>
  Claim C1. The claim does not hold of the code. In the specification's scenario the run
  writes the tables of \<^verbatim>\<open>a.txt\<close> and \<^verbatim>\<open>b.txt\<close>; the generated function finds \<^verbatim>\<open>b.txt\<close>
  and its size, but asked for \<^verbatim>\<open>sub/b.txt\<close>, which is not in the table, it does not
  return the null pointer: it reads the names table past its last element.
\<close>

theorem lookup_of_absent_name_overruns:
  "source_out (main scenario_env scenario_args) = Some scenario_source
   \<and> embedded_lookup scenario_source ''b.txt'' (Some 0) = Inr (Ptr (''!'' @ [NUL]), Some 1)
   \<and> embedded_lookup scenario_source ''sub/b.txt'' None = Inl Out_of_bounds
   \<and> embedded_lookup scenario_source ''sub/b.txt'' (Some 0) = Inl Out_of_bounds"
  by code_simp

section \<open>Properties of the argument loop\<close>

lemma is_option_drop: "is_option a \<Longrightarrow> a = ''--'' @ drop 2 a"
  by (auto simp: is_option_def split: list.splits)

lemma search_args_option:
  "is_option a \<Longrightarrow> input_files cfg = None \<Longrightarrow>
   search_args cfg (a # rest) =
     (if drop 2 a = ''source'' then
        (case rest of [] \<Rightarrow> Inr (cfg\<lparr>source_file := None\<rparr>)
         | v # rest' \<Rightarrow> search_args (cfg\<lparr>source_file := Some v\<rparr>) rest')
      else if drop 2 a = ''header'' then
        (case rest of [] \<Rightarrow> Inr (cfg\<lparr>header_file := None\<rparr>)
         | v # rest' \<Rightarrow> search_args (cfg\<lparr>header_file := Some v\<rparr>) rest')
      else if drop 2 a = ''function'' then
        (case rest of [] \<Rightarrow> Inr (cfg\<lparr>function_name := None\<rparr>)
         | v # rest' \<Rightarrow> search_args (cfg\<lparr>function_name := Some v\<rparr>) rest')
      else if drop 2 a = ''help'' then Inl [Usage]
      else if drop 2 a = ''preserve-paths'' then
        search_args (cfg\<lparr>preserve_paths := True\<rparr>) rest
      else Inl [Unrecognized_option (drop 2 a), Usage])"
  by (cases rest) (simp_all add: search_args.simps Let_def)

text \<open>
  The first argument that is not an option ends the loop: it and everything after it,
  options included, are the input files.
\<close>

lemma search_args_bare:
  "\<not> is_option a \<Longrightarrow> input_files cfg = None \<Longrightarrow>
   search_args cfg (a # rest) = Inr (cfg\<lparr>input_files := Some (a # rest)\<rparr>)"
  by (simp add: search_args.simps)

text \<open>An option that is not on the command line is not set by the loop.\<close>

lemma search_args_keeps:
  "input_files cfg = None \<Longrightarrow> search_args cfg args = Inr cfg' \<Longrightarrow>
     (''--function'' \<notin> set args \<longrightarrow> function_name cfg' = function_name cfg)
     \<and> (''--source'' \<notin> set args \<longrightarrow> source_file cfg' = source_file cfg)"
proof (induction args arbitrary: cfg rule: length_induct)
  case (1 args)
  show ?case
  proof (cases args)
    case Nil
    with "1.prems" show ?thesis by (simp add: search_args.simps(1))
  next
    case (Cons a rest)
    show ?thesis
    proof (cases "is_option a")
      case False
      with "1.prems" Cons show ?thesis by (auto simp: search_args_bare)
    next
      case True
      note a = is_option_drop [OF True]
      have step: "(''--function'' \<notin> set r \<longrightarrow> function_name cfg' = function_name c)
          \<and> (''--source'' \<notin> set r \<longrightarrow> source_file cfg' = source_file c)"
        if "search_args c r = Inr cfg'" and "length r < length args" and "input_files c = None"
        for c r
        using "1.IH" that by blast
      from "1.prems"(2) Cons have run: "search_args cfg (a # rest) = Inr cfg'" by simp
      show ?thesis
      proof (cases rest)
        case Nil
        from run True "1.prems"(1) a Cons show ?thesis
          unfolding Nil
          by (auto simp: search_args_option search_args.simps(1) split: if_splits)
      next
        case r: (Cons v rest')
        from run True "1.prems"(1) r
        consider
            (src) "drop 2 a = ''source''"
              "search_args (cfg\<lparr>source_file := Some v\<rparr>) rest' = Inr cfg'"
          | (hdr) "drop 2 a = ''header''"
              "search_args (cfg\<lparr>header_file := Some v\<rparr>) rest' = Inr cfg'"
          | (fn) "drop 2 a = ''function''"
              "search_args (cfg\<lparr>function_name := Some v\<rparr>) rest' = Inr cfg'"
          | (pp) "drop 2 a = ''preserve-paths''"
              "search_args (cfg\<lparr>preserve_paths := True\<rparr>) rest = Inr cfg'"
          by (auto simp: search_args_option split: if_splits)
        then show ?thesis
        proof cases
          case src
          from step [OF src(2)] "1.prems"(1) a src(1) Cons r show ?thesis by auto
        next
          case hdr
          from step [OF hdr(2)] "1.prems"(1) a hdr(1) Cons r show ?thesis by auto
        next
          case fn
          from step [OF fn(2)] "1.prems"(1) a fn(1) Cons r show ?thesis by auto
        next
          case pp
          from step [OF pp(2)] "1.prems"(1) a pp(1) Cons r show ?thesis by auto
        qed
      qed
    qed
  qed
qed

text \<open>
  The diagnostic for an option after the input files is never printed: the loop has
  ended before an option could follow a file.
\<close>

lemma search_args_never_options_before_files:
  "input_files cfg = None \<Longrightarrow> search_args cfg args = Inl ds \<Longrightarrow>
     Options_before_files \<notin> set ds"
proof (induction args arbitrary: cfg rule: length_induct)
  case (1 args)
  show ?case
  proof (cases args)
    case Nil
    with "1.prems" show ?thesis by (simp add: search_args.simps(1))
  next
    case (Cons a rest)
    show ?thesis
    proof (cases "is_option a")
      case False
      with "1.prems" Cons show ?thesis by (auto simp: search_args_bare)
    next
      case True
      have step: "Options_before_files \<notin> set ds"
        if "search_args c r = Inl ds" and "length r < length args" and "input_files c = None"
        for c r
        using "1.IH" that by blast
      from "1.prems"(2) Cons have run: "search_args cfg (a # rest) = Inl ds" by simp
      show ?thesis
      proof (cases rest)
        case Nil
        from run True "1.prems"(1) Cons show ?thesis
          unfolding Nil
          by (auto simp: search_args_option search_args.simps(1) split: if_splits)
      next
        case r: (Cons v rest')
        from run True "1.prems"(1) r
        consider
            (src) "search_args (cfg\<lparr>source_file := Some v\<rparr>) rest' = Inl ds"
          | (hdr) "search_args (cfg\<lparr>header_file := Some v\<rparr>) rest' = Inl ds"
          | (fn) "search_args (cfg\<lparr>function_name := Some v\<rparr>) rest' = Inl ds"
          | (pp) "search_args (cfg\<lparr>preserve_paths := True\<rparr>) rest = Inl ds"
          | (stop) "ds = [Usage] \<or> ds = [Unrecognized_option (drop 2 a), Usage]"
          by (auto simp: search_args_option split: if_splits)
        then show ?thesis
        proof cases
          case src
          from step [OF src] "1.prems"(1) Cons r show ?thesis by auto
        next
          case hdr
          from step [OF hdr] "1.prems"(1) Cons r show ?thesis by auto
        next
          case fn
          from step [OF fn] "1.prems"(1) Cons r show ?thesis by auto
        next
          case pp
          from step [OF pp] "1.prems"(1) Cons r show ?thesis by auto
        next
          case stop
          then show ?thesis by auto
        qed
      qed
    qed
  qed
qed

section \<open>Properties of the run\<close>

lemma main_usage_error:
  assumes "search_args config0 args = Inl ds"
  shows "status (main e args) = Exit EXIT_FAILURE \<and> opened (main e args) = []
          \<and> source_out (main e args) = None \<and> header_out (main e args) = None"
  using assms by (simp add: main_def)

lemma main_without_required:
  assumes "search_args config0 args = Inr cfg"
    and "function_name cfg = None \<or> source_file cfg = None"
  shows "status (main e args) = Exit EXIT_FAILURE \<and> opened (main e args) = []
          \<and> source_out (main e args) = None \<and> header_out (main e args) = None"
  using assms by (auto simp: main_def Let_def split: option.splits)

text \<open>
  Claim C9. An invocation that misses \<^verbatim>\<open>--function\<close> or \<^verbatim>\<open>--source\<close> (the option is not
  among the arguments, or the argument loop leaves its value null) ends with the failure
  status, has opened no output path, and has written no source and no header.
\<close>

theorem missing_function_or_source_fails_untouched:
  assumes "''--function'' \<notin> set args \<or> ''--source'' \<notin> set args
           \<or> (\<exists>cfg. search_args config0 args = Inr cfg
                 \<and> (function_name cfg = None \<or> source_file cfg = None))"
  shows "status (main e args) = Exit EXIT_FAILURE \<and> opened (main e args) = []
          \<and> source_out (main e args) = None \<and> header_out (main e args) = None"
proof (cases "search_args config0 args")
  case (Inl ds)
  then show ?thesis by (rule main_usage_error)
next
  case (Inr cfg)
  have i: "input_files config0 = None" by (simp add: config0_def)
  from search_args_keeps [OF i Inr] assms Inr
  have "function_name cfg = None \<or> source_file cfg = None"
    by (auto simp: config0_def)
  with Inr show ?thesis by (rule main_without_required)
qed

theorem missing_function_or_source_fails_untouched_witness:
  "''--function'' \<notin> set [''--source'', ''out.c'', ''--header'', ''out.h'', ''a.txt'']
   \<and> status (main scenario_env [''--source'', ''out.c'', ''--header'', ''out.h'', ''a.txt''])
       = Exit EXIT_FAILURE
   \<and> opened (main scenario_env [''--source'', ''out.c'', ''--header'', ''out.h'', ''a.txt''])
       = []"
proof -
  have h: "''--function'' \<notin> set [''--source'', ''out.c'', ''--header'', ''out.h'', ''a.txt'']"
    by simp
  from h missing_function_or_source_fails_untouched [OF disjI1, OF h, of scenario_env]
  show ?thesis by blast
qed

text \<open>
  Without a header path no run succeeds and no header is written: the run ends in a
  usage error, or cannot open the source, or hands the null path to \<^verbatim>\<open>fopen\<close>.
\<close>

lemma main_without_header:
  assumes "search_args config0 args = Inr cfg" and "header_file cfg = None"
  shows "status (main e args) \<noteq> Exit EXIT_SUCCESS \<and> header_out (main e args) = None"
  using assms
  by (auto simp: main_def Let_def EXIT_SUCCESS_def EXIT_FAILURE_def split: option.splits)

text \<open>
  Claim C3. The claim does not hold of the code. With \<^verbatim>\<open>--function\<close>, \<^verbatim>\<open>--source\<close> and
  an input file that opens, but no \<^verbatim>\<open>--header\<close>, the run prints the notice, opens the
  source file, and then hands the null header path to \<^verbatim>\<open>fopen\<close>: it does not reach the
  emitters and does not exit with success.
\<close>

theorem run_without_header_does_not_complete:
  "main scenario_env [''--function'', ''get'', ''--source'', ''out.c'', ''a.txt''] =
     \<lparr>status = Undefined, diagnostics = [No_header_notice], opened = [''out.c''],
      source_out = None, header_out = None\<rparr>"
  by code_simp

text \<open>
  Claim C8. The claim does not hold of the code. An option after the first input file is
  taken for an input file. Where a file of that name exists the run succeeds and embeds
  it, and prints nothing; where it does not, the run fails on opening it, and prints no
  usage either.
\<close>

theorem option_after_input_file_is_an_input_file:
  "search_args config0
     [''--function'', ''get'', ''--source'', ''out.c'', ''--header'', ''out.h'',
      ''a.txt'', ''--help''] =
     Inr \<lparr>function_name = Some ''get'', source_file = Some ''out.c'',
       header_file = Some ''out.h'', input_files = Some [''a.txt'', ''--help''],
       preserve_paths = False\<rparr>
   \<and> main \<lparr>files_of = [''a.txt'' \<mapsto> ''hi'', ''--help'' \<mapsto> ''!''], writable = (\<lambda>path. True)\<rparr>
       [''--function'', ''get'', ''--source'', ''out.c'', ''--header'', ''out.h'',
        ''a.txt'', ''--help''] =
     \<lparr>status = Exit EXIT_SUCCESS, diagnostics = [], opened = [''out.c'', ''out.h''],
      source_out = Some
        \<lparr>names_table = [Ptr (''a.txt'' @ [NUL]), Ptr (''--help'' @ [NUL]), Ptr [NUL]],
         data_table = [Ptr (''hi'' @ [NUL]), Ptr (''!'' @ [NUL])],
         sizes_table = [2, 1], function_name_of = ''get''\<rparr>,
      header_out = Some \<lparr>guard = ''_OUT_H_'', declared = ''get''\<rparr>\<rparr>
   \<and> main scenario_env
       [''--function'', ''get'', ''--source'', ''out.c'', ''--header'', ''out.h'',
        ''a.txt'', ''--help''] =
     \<lparr>status = Exit 1, diagnostics = [Cannot_open_file ''--help''],
      opened = [''out.c'', ''out.h''], source_out = None, header_out = None\<rparr>"
  by code_simp











end
